theory Spec2Isabelle
  imports Complex_Main
begin

section \<open>The seismic simulation of \<open>main.py\<close>\<close>

text \<open>
  Times are Python floats (and ints mixed in by the configuration); they are modelled as
  reals, so rounding, infinities and NaN are outside the model. The process-wide numpy
  generator is modelled as a stream \<open>w\<close>: \<open>w i a\<close> is the value returned by the
  \<open>i\<close>-th call of \<open>np.random.weibull\<close> when that call is made with shape \<open>a\<close>. The number
  of calls made so far is the field \<open>draws\<close> of the simulator state.
\<close>

subsection \<open>Data\<close>

record device =
  name :: string
  shape :: real
  scale :: real
  next_maintenance :: real
  end_maintenance :: real
  failed :: bool

record simulator =
  device1 :: device
  device2 :: device
  quake :: real
  maintenance_duration :: real
  draws :: nat

type_synonym weibull = "nat \<Rightarrow> real \<Rightarrow> real"

definition q_slope :: real where
  "q_slope = 7 / 10"

definition q_scale :: real where
  "q_scale = 200"

subsection \<open>\<open>Simulator.reset\<close>\<close>

definition reset :: "weibull \<Rightarrow> simulator \<Rightarrow> simulator" where
  "reset w s =
     s\<lparr>device1 := (device1 s)\<lparr>next_maintenance := scale (device1 s), end_maintenance := 0,
                               failed := False\<rparr>,
       device2 := (device2 s)\<lparr>next_maintenance := scale (device2 s), end_maintenance := 0,
                               failed := False\<rparr>,
       quake := w (draws s) q_slope * q_scale,
       draws := draws s + 1\<rparr>"

subsection \<open>\<open>Simulator.simulate\<close>\<close>

text \<open>Line 62: the time of the next event.\<close>

definition next_event :: "simulator \<Rightarrow> real" where
  "next_event s =
     min (min (next_maintenance (device1 s)) (next_maintenance (device2 s))) (quake s)"

text \<open>Lines 65-66: the condition of the \<open>break\<close>.\<close>

definition stops :: "real \<Rightarrow> simulator \<Rightarrow> bool" where
  "stops current_time s \<longleftrightarrow>
     next_event s = quake s \<and>
     current_time < end_maintenance (device1 s) \<and> current_time < end_maintenance (device2 s)"

text \<open>Lines 74-79: the maintenance of device 1 at \<open>current_time\<close>.\<close>

definition maintain1 :: "weibull \<Rightarrow> real \<Rightarrow> simulator \<Rightarrow> simulator" where
  "maintain1 w current_time s =
     (let d1 = (device1 s)\<lparr>next_maintenance :=
                   next_maintenance (device1 s)
                     + w (draws s) (shape (device1 s)) * scale (device1 s),
                 end_maintenance := current_time + maintenance_duration s,
                 failed := False\<rparr>;
          d1' = (if current_time < end_maintenance (device2 s)
                 then d1\<lparr>next_maintenance := end_maintenance (device2 s) + 1\<rparr>
                 else d1)
      in s\<lparr>device1 := d1', draws := draws s + 1\<rparr>)"

text \<open>Lines 83-88: the maintenance of device 2 at \<open>current_time\<close>.\<close>

definition maintain2 :: "weibull \<Rightarrow> real \<Rightarrow> simulator \<Rightarrow> simulator" where
  "maintain2 w current_time s =
     (let d2 = (device2 s)\<lparr>next_maintenance :=
                   next_maintenance (device2 s)
                     + w (draws s) (shape (device2 s)) * scale (device2 s),
                 end_maintenance := current_time + maintenance_duration s,
                 failed := False\<rparr>;
          d2' = (if current_time < end_maintenance (device1 s)
                 then d2\<lparr>next_maintenance := end_maintenance (device1 s) + 1\<rparr>
                 else d2)
      in s\<lparr>device2 := d2', draws := draws s + 1\<rparr>)"

text \<open>Lines 92-98: the earthquake at \<open>current_time\<close>.\<close>

definition earthquake :: "weibull \<Rightarrow> real \<Rightarrow> simulator \<Rightarrow> simulator" where
  "earthquake w current_time s =
     (let d1 = (if current_time \<ge> end_maintenance (device1 s)
                then (device1 s)\<lparr>failed := True,
                       next_maintenance := current_time + maintenance_duration s\<rparr>
                else device1 s);
          d2 = (if current_time \<ge> end_maintenance (device2 s)
                then (device2 s)\<lparr>failed := True,
                       next_maintenance := current_time + maintenance_duration s\<rparr>
                else device2 s)
      in s\<lparr>quake := current_time + w (draws s) 3 * 100, device1 := d1, device2 := d2,
           draws := draws s + 1\<rparr>)"

text \<open>Lines 72-98: the dispatch, with \<open>current_time\<close> already set to the event's time.\<close>

definition handle_event :: "weibull \<Rightarrow> real \<Rightarrow> simulator \<Rightarrow> simulator" where
  "handle_event w current_time s =
     (if current_time = next_maintenance (device1 s) then maintain1 w current_time s
      else if current_time = next_maintenance (device2 s) then maintain2 w current_time s
      else earthquake w current_time s)"

text \<open>
  Lines 60-100: the loop \<open>while True\<close>. It has no bound, so the model is a partial function:
  \<open>None\<close> is a loop that never reaches its \<open>break\<close>. The result is the returned
  \<open>current_time\<close> and the simulator as the loop left it.
\<close>

partial_function (option) simulate_loop ::
  "weibull \<Rightarrow> real \<Rightarrow> simulator \<Rightarrow> (real \<times> simulator) option" where
  "simulate_loop w current_time s =
     (if stops current_time s then Some (current_time, s)
      else simulate_loop w (next_event s) (handle_event w (next_event s) s))"

definition simulate :: "weibull \<Rightarrow> simulator \<Rightarrow> (real \<times> simulator) option" where
  "simulate w s = simulate_loop w 0 s"

subsection \<open>\<open>run_simulation\<close>\<close>

text \<open>Lines 104-108: the simulator as constructed; the first draw gives the first quake.\<close>

definition initial_simulator :: "weibull \<Rightarrow> simulator" where
  "initial_simulator w =
     \<lparr>device1 = \<lparr>name = ''Device 1'', shape = 2, scale = 200, next_maintenance = 30,
                  end_maintenance = 0, failed = False\<rparr>,
      device2 = \<lparr>name = ''Device 2'', shape = 3, scale = 100, next_maintenance = 180,
                  end_maintenance = 0, failed = False\<rparr>,
      quake = w 0 q_slope * q_scale, maintenance_duration = 30, draws = 1\<rparr>"

text \<open>
  Lines 115-118: \<open>num_simulations\<close> rounds of \<open>simulate\<close>, \<open>append\<close>, \<open>reset\<close>. The result is
  \<open>termination_times\<close> and the simulator after the last \<open>reset\<close>; \<open>None\<close> when a trial never
  returns.
\<close>

fun run_trials :: "weibull \<Rightarrow> nat \<Rightarrow> simulator \<Rightarrow> (real list \<times> simulator) option" where
  "run_trials w 0 s = Some ([], s)"
| "run_trials w (Suc n) s =
     (case simulate w s of
        None \<Rightarrow> None
      | Some (termination_time, s1) \<Rightarrow>
          (case run_trials w n (reset w s1) of
             None \<Rightarrow> None
           | Some (termination_times, s2) \<Rightarrow> Some (termination_time # termination_times, s2)))"

text \<open>Line 120: \<open>np.mean\<close> of a non-empty list (of the empty list numpy gives NaN).\<close>

definition mean :: "real list \<Rightarrow> real" where
  "mean xs = sum_list xs / real (length xs)"

text \<open>
  Lines 113-121: the loop over \<open>simulation_runs\<close>, carrying \<open>average_times\<close>, the last
  \<open>termination_times\<close> and the simulator.
\<close>

fun batches ::
  "weibull \<Rightarrow> nat list \<Rightarrow> real list \<times> real list \<times> simulator \<Rightarrow>
     (real list \<times> real list \<times> simulator) option" where
  "batches w [] acc = Some acc"
| "batches w (num_simulations # rest) (average_times, old_times, s) =
     (case run_trials w num_simulations s of
        None \<Rightarrow> None
      | Some (termination_times, s') \<Rightarrow>
          batches w rest (average_times @ [mean termination_times], termination_times, s'))"

datatype py_error = ZeroDivisionError | NameError

text \<open>
  \<open>run_simulation\<close> with the list \<open>simulation_runs\<close> of line 111 as a parameter. Its outputs
  are the points of the convergence plot (line 151) and the \<open>termination_times\<close> written to
  \<open>results.txt\<close> (lines 160-162). Line 151 divides by each count, so a count of zero raises
  there; with no count at all \<open>plot_dir\<close> is never assigned and line 155 raises.
\<close>

definition run_simulation_on ::
  "weibull \<Rightarrow> nat list \<Rightarrow> (py_error + (real \<times> real) list \<times> real list) option" where
  "run_simulation_on w simulation_runs =
     (case batches w simulation_runs ([], [], initial_simulator w) of
        None \<Rightarrow> None
      | Some (average_times, termination_times, s) \<Rightarrow>
          Some (if 0 \<in> set simulation_runs then Inl ZeroDivisionError
                else if simulation_runs = [] then Inl NameError
                else Inr (zip (map (\<lambda>n. 1 / real n) simulation_runs) average_times,
                          termination_times)))"

definition run_simulation ::
  "weibull \<Rightarrow> (py_error + (real \<times> real) list \<times> real list) option" where
  "run_simulation w = run_simulation_on w (map (\<lambda>i. 1000 * 2 ^ i) [0..<8])"

subsection \<open>Notions used by the properties\<close>






text \<open>A geometric progression of trial counts: \<open>b\<close>, \<open>b * r\<close>, ..., \<open>k\<close> of them.\<close>

definition geometric :: "nat \<Rightarrow> nat \<Rightarrow> nat \<Rightarrow> nat list" where
  "geometric b r k = map (\<lambda>i. b * r ^ i) [0..<k]"

text \<open>The states of one trial: from time zero, one event at a time while the loop goes on.\<close>

inductive trial_reaches :: "weibull \<Rightarrow> simulator \<Rightarrow> real \<Rightarrow> simulator \<Rightarrow> bool"
  for w :: weibull and s0 :: simulator where
  start: "trial_reaches w s0 0 s0"
| event: "trial_reaches w s0 current_time s \<Longrightarrow> \<not> stops current_time s \<Longrightarrow>
          trial_reaches w s0 (next_event s) (handle_event w (next_event s) s)"

text \<open>
  What a valid configuration gives the engine: no negative scale or duration, no event
  scheduled before time zero; and a random source that draws no negative number.
\<close>

definition valid_start :: "simulator \<Rightarrow> bool" where
  "valid_start s \<longleftrightarrow>
     0 \<le> scale (device1 s) \<and> 0 \<le> scale (device2 s) \<and> 0 \<le> maintenance_duration s \<and>
     0 \<le> next_maintenance (device1 s) \<and> 0 \<le> next_maintenance (device2 s) \<and> 0 \<le> quake s"

definition nonneg_draws :: "weibull \<Rightarrow> bool" where
  "nonneg_draws w \<longleftrightarrow> (\<forall>i a. 0 \<le> w i a)"

text \<open>The simulator with the \<open>failed\<close> flags blanked out.\<close>

definition forget_failed :: "simulator \<Rightarrow> simulator" where
  "forget_failed s =
     s\<lparr>device1 := (device1 s)\<lparr>failed := False\<rparr>, device2 := (device2 s)\<lparr>failed := False\<rparr>\<rparr>"

subsection \<open>Invariants of the loop\<close>

text \<open>
  No event is scheduled before the current time, and no scale or duration is negative.
\<close>

definition on_time :: "real \<Rightarrow> simulator \<Rightarrow> bool" where
  "on_time current_time s \<longleftrightarrow>
     current_time \<le> next_maintenance (device1 s) \<and>
     current_time \<le> next_maintenance (device2 s) \<and> current_time \<le> quake s \<and>
     0 \<le> scale (device1 s) \<and> 0 \<le> scale (device2 s) \<and> 0 \<le> maintenance_duration s"

text \<open>
  The three phases of the trial of the program's own configuration when every draw is one,
  relative to the current time \<open>t\<close>: after a quake, after the maintenance of device 1 that
  follows it, and after the maintenance of device 2 that follows that.
\<close>

definition cycling :: "real \<Rightarrow> simulator \<Rightarrow> bool" where
  "cycling t s \<longleftrightarrow>
     scale (device1 s) = 200 \<and> scale (device2 s) = 100 \<and> maintenance_duration s = 30 \<and>
     (next_maintenance (device1 s) = t + 30 \<and> next_maintenance (device2 s) = t + 80 \<and>
      quake s = t + 100 \<and> end_maintenance (device1 s) \<le> t \<and>
      end_maintenance (device2 s) = t + 10
      \<or>
      next_maintenance (device1 s) = t + 200 \<and> next_maintenance (device2 s) = t + 50 \<and>
      quake s = t + 70 \<and> end_maintenance (device1 s) = t + 30 \<and>
      end_maintenance (device2 s) = t - 20
      \<or>
      next_maintenance (device1 s) = t + 150 \<and> next_maintenance (device2 s) = t + 100 \<and>
      quake s = t + 20 \<and> end_maintenance (device1 s) = t - 20 \<and>
      end_maintenance (device2 s) = t + 30)"

subsection \<open>Concrete inputs\<close>

text \<open>Every draw equal to one.\<close>

definition unit_draws :: weibull where
  "unit_draws = (\<lambda>i a. 1)"

text \<open>
  A stream on which every trial of \<open>run_simulation\<close> returns, the first at time 180 and
  each later one at time 200: the draw depends on the shape asked for only.
\<close>

definition trace_draws :: weibull where
  "trace_draws = (\<lambda>i a. if a = 2 then 3 / 4 else if a = 3 then 9 / 10 else 21 / 20)"

text \<open>
  Device 1 failed in a quake at time 10 and is due for repair at 40, inside the window of
  device 2, which entered maintenance at time 20.
\<close>

definition deferral_state :: simulator where
  "deferral_state =
     \<lparr>device1 = \<lparr>name = ''Device 1'', shape = 2, scale = 200, next_maintenance = 40,
                  end_maintenance = 0, failed = True\<rparr>,
      device2 = \<lparr>name = ''Device 2'', shape = 3, scale = 100, next_maintenance = 120,
                  end_maintenance = 50, failed = False\<rparr>,
      quake = 110, maintenance_duration = 30, draws = 3\<rparr>"

text \<open>
  A simulator whose devices are both inside their windows (until 40 and 50), with the quake
  and the next maintenance of device 1 both scheduled at 35.
\<close>

definition tie_state :: simulator where
  "tie_state =
     \<lparr>device1 = \<lparr>name = ''Device 1'', shape = 2, scale = 200, next_maintenance = 35,
                  end_maintenance = 40, failed = False\<rparr>,
      device2 = \<lparr>name = ''Device 2'', shape = 3, scale = 100, next_maintenance = 51,
                  end_maintenance = 50, failed = False\<rparr>,
      quake = 35, maintenance_duration = 30, draws = 3\<rparr>"

text \<open>The first draw is 3/20, so that the first quake of the program falls at time 30.\<close>

definition tie_draws :: weibull where
  "tie_draws = (\<lambda>i a. if i = 0 then 3 / 20 else 1)"

text \<open>A stream whose draws differ with the position and the shape.\<close>

definition indexed_draws :: weibull where
  "indexed_draws = (\<lambda>i a. 10 * real i + a)"

text \<open>
  With every draw equal to one: the program's simulator before and after its first quake,
  which is the event at time 200.
\<close>

definition before_first_quake :: simulator where
  "before_first_quake =
     \<lparr>device1 = \<lparr>name = ''Device 1'', shape = 2, scale = 200, next_maintenance = 230,
                  end_maintenance = 60, failed = False\<rparr>,
      device2 = \<lparr>name = ''Device 2'', shape = 3, scale = 100, next_maintenance = 280,
                  end_maintenance = 210, failed = False\<rparr>,
      quake = 200, maintenance_duration = 30, draws = 3\<rparr>"


definition after_first_quake :: simulator where
  "after_first_quake =
     \<lparr>device1 = \<lparr>name = ''Device 1'', shape = 2, scale = 200, next_maintenance = 230,
                  end_maintenance = 60, failed = True\<rparr>,
      device2 = \<lparr>name = ''Device 2'', shape = 3, scale = 100, next_maintenance = 280,
                  end_maintenance = 210, failed = False\<rparr>,
      quake = 300, maintenance_duration = 30, draws = 4\<rparr>"

text \<open>With the draws of \<open>trace_draws\<close>: the program's simulator when its first trial stops.\<close>

definition first_trial_end :: simulator where
  "first_trial_end =
     \<lparr>device1 = \<lparr>name = ''Device 1'', shape = 2, scale = 200, next_maintenance = 330,
                  end_maintenance = 210, failed = False\<rparr>,
      device2 = \<lparr>name = ''Device 2'', shape = 3, scale = 100, next_maintenance = 211,
                  end_maintenance = 210, failed = False\<rparr>,
      quake = 210, maintenance_duration = 30, draws = 4\<rparr>"



text \<open>The program's simulator as constructed, but with both \<open>failed\<close> flags set.\<close>

definition flagged_simulator :: "weibull \<Rightarrow> simulator" where
  "flagged_simulator w =
     (initial_simulator w)\<lparr>device1 := (device1 (initial_simulator w))\<lparr>failed := True\<rparr>,
                             device2 := (device2 (initial_simulator w))\<lparr>failed := True\<rparr>\<rparr>"

section \<open>Properties\<close>

subsection \<open>Lemmas on the loop\<close>

lemmas step_defs = stops_def next_event_def handle_event_def maintain1_def maintain2_def
  earthquake_def Let_def

lemma on_time_next_event: "on_time current_time s \<Longrightarrow> current_time \<le> next_event s"
  by (simp add: on_time_def next_event_def)

lemma on_time_handle_event:
  assumes w: "nonneg_draws w" and o: "on_time current_time s"
  shows "on_time (next_event s) (handle_event w (next_event s) s)"
proof -
  have d: "\<And>a b. 0 \<le> b \<Longrightarrow> 0 \<le> w (draws s) a * b"
    using w by (simp add: nonneg_draws_def)
  have m: "next_event s \<le> next_maintenance (device1 s)"
    "next_event s \<le> next_maintenance (device2 s)" "next_event s \<le> quake s"
    by (simp_all add: next_event_def)
  from o have p: "0 \<le> scale (device1 s)" "0 \<le> scale (device2 s)" "0 \<le> maintenance_duration s"
    by (simp_all add: on_time_def)
  show ?thesis
    using m p d [OF p(1), of "shape (device1 s)"] d [OF p(2), of "shape (device2 s)"]
      d [of 100 3]
    by (auto simp add: on_time_def handle_event_def maintain1_def maintain2_def
        earthquake_def Let_def)
qed

lemma simulate_loop_result_ge_aux:
  assumes "simulate_loop w current_time s = Some r"
  shows "nonneg_draws w \<longrightarrow> on_time current_time s \<longrightarrow> current_time \<le> fst r"
proof (rule simulate_loop.raw_induct
    [where P = "\<lambda>w ct s r. nonneg_draws w \<longrightarrow> on_time ct s \<longrightarrow> ct \<le> fst r", OF _ assms])
  fix f :: "weibull \<Rightarrow> real \<Rightarrow> simulator \<Rightarrow> (real \<times> simulator) option"
  fix w ct s r
  assume ih: "\<And>w ct s r. f w ct s = Some r \<Longrightarrow>
      nonneg_draws w \<longrightarrow> on_time ct s \<longrightarrow> ct \<le> fst r"
  assume body: "(if stops ct s then Some (ct, s)
      else f w (next_event s) (handle_event w (next_event s) s)) = Some r"
  show "nonneg_draws w \<longrightarrow> on_time ct s \<longrightarrow> ct \<le> fst r"
  proof (intro impI)
    assume w: "nonneg_draws w" and o: "on_time ct s"
    show "ct \<le> fst r"
    proof (cases "stops ct s")
      case True
      with body show ?thesis by auto
    next
      case False
      with body have "f w (next_event s) (handle_event w (next_event s) s) = Some r" by simp
      from ih [OF this] w on_time_handle_event [OF w o]
      have "next_event s \<le> fst r" by simp
      with on_time_next_event [OF o] show ?thesis by simp
    qed
  qed
qed

lemma simulate_loop_result_ge:
  "nonneg_draws w \<Longrightarrow> on_time current_time s \<Longrightarrow>
   simulate_loop w current_time s = Some (t, s') \<Longrightarrow> current_time \<le> t"
  using simulate_loop_result_ge_aux [of w current_time s "(t, s')"] by simp

lemma trial_reaches_loop:
  "trial_reaches w s0 current_time s \<Longrightarrow> simulate_loop w current_time s = simulate w s0"
proof (induction rule: trial_reaches.induct)
  case start
  show ?case by (simp add: simulate_def)
next
  case (event ct s)
  have "simulate_loop w ct s = simulate_loop w (next_event s) (handle_event w (next_event s) s)"
    using event(2) by (subst simulate_loop.simps) simp
  with event(3) show ?case by simp
qed

lemma trial_reaches_on_time:
  assumes "nonneg_draws w" and "valid_start s0"
  shows "trial_reaches w s0 current_time s \<Longrightarrow> on_time current_time s"
proof (induction rule: trial_reaches.induct)
  case start
  from assms(2) show ?case by (simp add: valid_start_def on_time_def)
next
  case (event ct s)
  from on_time_handle_event [OF assms(1) event(3)] show ?case .
qed

lemma cycling_goes_on: "cycling t s \<Longrightarrow> \<not> stops t s"
  by (auto simp add: cycling_def stops_def)

lemma cycling_handle_event:
  "cycling t s \<Longrightarrow> cycling (next_event s) (handle_event unit_draws (next_event s) s)"
  unfolding cycling_def
  by (elim conjE disjE) (simp_all add: step_defs unit_draws_def)

lemma cycling_never_returns:
  assumes "simulate_loop w t s = Some r"
  shows "w = unit_draws \<longrightarrow> \<not> cycling t s"
proof (rule simulate_loop.raw_induct
    [where P = "\<lambda>w t s r. w = unit_draws \<longrightarrow> \<not> cycling t s", OF _ assms])
  fix f :: "weibull \<Rightarrow> real \<Rightarrow> simulator \<Rightarrow> (real \<times> simulator) option"
  fix w t s r
  assume ih: "\<And>w t s r. f w t s = Some r \<Longrightarrow> w = unit_draws \<longrightarrow> \<not> cycling t s"
  assume body: "(if stops t s then Some (t, s)
      else f w (next_event s) (handle_event w (next_event s) s)) = Some r"
  show "w = unit_draws \<longrightarrow> \<not> cycling t s"
  proof (intro impI notI)
    assume w: "w = unit_draws" and c: "cycling t s"
    from body cycling_goes_on [OF c]
    have "f w (next_event s) (handle_event w (next_event s) s) = Some r" by simp
    from ih [OF this] w cycling_handle_event [OF c] show False by simp
  qed
qed

lemma unit_trial_prefix:
  "simulate unit_draws (initial_simulator unit_draws) =
     simulate_loop unit_draws 200 after_first_quake"
  unfolding simulate_def
  apply (subst simulate_loop.simps)
  apply (simp add: initial_simulator_def unit_draws_def q_slope_def q_scale_def step_defs)
  apply (subst simulate_loop.simps)
  apply (simp add: step_defs)
  apply (subst simulate_loop.simps)
  apply (simp add: step_defs after_first_quake_def eval_nat_numeral)
  done

lemma first_trial:
  "simulate trace_draws (initial_simulator trace_draws) = Some (180, first_trial_end)"
  by (simp add: simulate_def simulate_loop.simps initial_simulator_def trace_draws_def
      q_slope_def q_scale_def step_defs first_trial_end_def)

subsection \<open>Lemmas on the \<open>failed\<close> flag\<close>

lemma forget_failed_eq:
  "forget_failed s = forget_failed s' \<longleftrightarrow>
     name (device1 s) = name (device1 s') \<and> shape (device1 s) = shape (device1 s') \<and>
     scale (device1 s) = scale (device1 s') \<and>
     next_maintenance (device1 s) = next_maintenance (device1 s') \<and>
     end_maintenance (device1 s) = end_maintenance (device1 s') \<and>
     name (device2 s) = name (device2 s') \<and> shape (device2 s) = shape (device2 s') \<and>
     scale (device2 s) = scale (device2 s') \<and>
     next_maintenance (device2 s) = next_maintenance (device2 s') \<and>
     end_maintenance (device2 s) = end_maintenance (device2 s') \<and>
     quake s = quake s' \<and> maintenance_duration s = maintenance_duration s' \<and>
     draws s = draws s'"
proof (cases s, cases s')
  fix d1 d2 q m n d1' d2' q' m' n'
  assume s: "s = \<lparr>device1 = d1, device2 = d2, quake = q, maintenance_duration = m, draws = n\<rparr>"
    and s': "s' = \<lparr>device1 = d1', device2 = d2', quake = q', maintenance_duration = m',
      draws = n'\<rparr>"
  show ?thesis
    unfolding s s' forget_failed_def
    by (cases d1, cases d2, cases d1', cases d2') auto
qed

lemma forget_failed_step:
  assumes "forget_failed s = forget_failed s'"
  shows "next_event s = next_event s'"
    and "stops current_time s = stops current_time s'"
    and "forget_failed (handle_event w t s) = forget_failed (handle_event w t s')"
  using assms
  by (simp_all add: forget_failed_eq step_defs)

lemma forget_failed_loop_aux:
  assumes "simulate_loop w current_time s = Some r"
  shows "\<forall>s'. forget_failed s = forget_failed s' \<longrightarrow>
           (\<exists>r'. simulate_loop w current_time s' = Some r' \<and> fst r' = fst r \<and>
                 forget_failed (snd r') = forget_failed (snd r))"
proof (rule simulate_loop.raw_induct
    [where P = "\<lambda>w ct s r. \<forall>s'. forget_failed s = forget_failed s' \<longrightarrow>
           (\<exists>r'. simulate_loop w ct s' = Some r' \<and> fst r' = fst r \<and>
                 forget_failed (snd r') = forget_failed (snd r))", OF _ assms])
  fix f :: "weibull \<Rightarrow> real \<Rightarrow> simulator \<Rightarrow> (real \<times> simulator) option"
  fix w ct s r
  assume ih: "\<And>w ct s r. f w ct s = Some r \<Longrightarrow>
      \<forall>s'. forget_failed s = forget_failed s' \<longrightarrow>
           (\<exists>r'. simulate_loop w ct s' = Some r' \<and> fst r' = fst r \<and>
                 forget_failed (snd r') = forget_failed (snd r))"
  assume body: "(if stops ct s then Some (ct, s)
      else f w (next_event s) (handle_event w (next_event s) s)) = Some r"
  show "\<forall>s'. forget_failed s = forget_failed s' \<longrightarrow>
           (\<exists>r'. simulate_loop w ct s' = Some r' \<and> fst r' = fst r \<and>
                 forget_failed (snd r') = forget_failed (snd r))"
  proof (intro allI impI)
    fix s'
    assume e: "forget_failed s = forget_failed s'"
    note st = forget_failed_step [OF e]
    show "\<exists>r'. simulate_loop w ct s' = Some r' \<and> fst r' = fst r \<and>
                 forget_failed (snd r') = forget_failed (snd r)"
    proof (cases "stops ct s")
      case True
      with body have r: "r = (ct, s)" by simp
      from True st(2) have "stops ct s'" by simp
      then have "simulate_loop w ct s' = Some (ct, s')"
        by (subst simulate_loop.simps) simp
      with r e show ?thesis by simp
    next
      case False
      with body have "f w (next_event s) (handle_event w (next_event s) s) = Some r" by simp
      from ih [OF this] st(3) [of w "next_event s"]
      obtain r' where r': "simulate_loop w (next_event s) (handle_event w (next_event s) s') = Some r'"
        "fst r' = fst r" "forget_failed (snd r') = forget_failed (snd r)"
        by blast
      from False st(2) have "\<not> stops ct s'" by simp
      then have "simulate_loop w ct s' =
          simulate_loop w (next_event s') (handle_event w (next_event s') s')"
        by (subst simulate_loop.simps) simp
      with r' st(1) show ?thesis by simp
    qed
  qed
qed

lemma forget_failed_simulate:
  assumes "forget_failed s = forget_failed s'"
  shows "map_option (\<lambda>r. (fst r, forget_failed (snd r))) (simulate w s) =
         map_option (\<lambda>r. (fst r, forget_failed (snd r))) (simulate w s')"
proof (cases "simulate w s")
  case None
  show ?thesis
  proof (cases "simulate w s'")
    case (Some r')
    then have "simulate_loop w 0 s' = Some r'" by (simp add: simulate_def)
    from forget_failed_loop_aux [OF this] assms [symmetric]
    have "\<exists>r. simulate_loop w 0 s = Some r" by blast
    with None show ?thesis by (simp add: simulate_def)
  next
    case n: None
    with None show ?thesis by simp
  qed
next
  case (Some r)
  with forget_failed_loop_aux [of w 0 s r] assms show ?thesis
    by (auto simp add: simulate_def)
qed

subsection \<open>Lemmas on the driver\<close>















lemma run_simulation_schedule: "run_simulation w = run_simulation_on w (geometric 1000 2 8)"
  by (simp add: run_simulation_def geometric_def)

















subsection \<open>The event handlers\<close>

text \<open>
  C1 (as amended). When the maintenance event of a device is handled at time \<open>t\<close> while the
  other device is inside its window (\<open>t < end_maintenance\<close> of the other), the device ends
  with \<open>next_maintenance\<close> equal to the other's \<open>end_maintenance + 1\<close>. The deferral
  overwrites that field only: \<open>end_maintenance\<close> is \<open>t + maintenance_duration\<close> and
  \<open>failed\<close> is false, as after any maintenance, and the other device is untouched.
\<close>

theorem deferral_overwrites_next_only:
  "(t = next_maintenance (device1 s) \<and> t < end_maintenance (device2 s) \<longrightarrow>
      device1 (handle_event w t s) =
        (device1 s)\<lparr>next_maintenance := end_maintenance (device2 s) + 1,
                     end_maintenance := t + maintenance_duration s, failed := False\<rparr> \<and>
      device2 (handle_event w t s) = device2 s) \<and>
   (t \<noteq> next_maintenance (device1 s) \<and> t = next_maintenance (device2 s) \<and>
    t < end_maintenance (device1 s) \<longrightarrow>
      device2 (handle_event w t s) =
        (device2 s)\<lparr>next_maintenance := end_maintenance (device1 s) + 1,
                     end_maintenance := t + maintenance_duration s, failed := False\<rparr> \<and>
      device1 (handle_event w t s) = device1 s)"
  by (simp add: handle_event_def maintain1_def maintain2_def Let_def)

theorem deferral_overwrites_next_only_witness:
  "40 = next_maintenance (device1 deferral_state) \<and>
   40 < end_maintenance (device2 deferral_state) \<and>
   device1 (handle_event unit_draws 40 deferral_state) =
     \<lparr>name = ''Device 1'', shape = 2, scale = 200, next_maintenance = 51,
      end_maintenance = 70, failed = False\<rparr>"
  using deferral_overwrites_next_only [of 40 deferral_state unit_draws]
  by (simp add: deferral_state_def)

text \<open>
  The claim as first stated, that \<open>failed\<close> and \<open>end_maintenance\<close> stay as they were, fails:
  in \<open>deferral_state\<close> device 1 is failed with no window, and after its deferred event it is
  not failed and has a window until 70.
\<close>

theorem deferral_keeps_fields_counterexample:
  "next_event deferral_state = next_maintenance (device1 deferral_state) \<and>
   next_event deferral_state < end_maintenance (device2 deferral_state) \<and>
   failed (device1 (handle_event unit_draws (next_event deferral_state) deferral_state))
     \<noteq> failed (device1 deferral_state) \<and>
   end_maintenance (device1 (handle_event unit_draws (next_event deferral_state) deferral_state))
     \<noteq> end_maintenance (device1 deferral_state)"
  by (simp add: next_event_def deferral_state_def handle_event_def maintain1_def Let_def)

text \<open>
  C2. When the next event is the quake and the current time is inside the windows of both
  devices, the loop stops at once: it returns the current time, not the quake's, and the
  simulator is as it was.
\<close>

theorem quake_in_double_maintenance_stops:
  assumes "next_event s = quake s"
    and "current_time < end_maintenance (device1 s)"
    and "current_time < end_maintenance (device2 s)"
  shows "simulate_loop w current_time s = Some (current_time, s)"
  using assms by (subst simulate_loop.simps) (simp add: stops_def)

theorem quake_in_double_maintenance_stops_witness:
  "next_event tie_state = quake tie_state \<and>
   20 < end_maintenance (device1 tie_state) \<and> 20 < end_maintenance (device2 tie_state) \<and>
   simulate_loop unit_draws 20 tie_state = Some (20, tie_state)"
proof -
  have a: "next_event tie_state = quake tie_state"
    by (simp add: next_event_def tie_state_def)
  have b: "20 < end_maintenance (device1 tie_state)"
    and c: "20 < end_maintenance (device2 tie_state)"
    by (simp_all add: tie_state_def)
  from quake_in_double_maintenance_stops [OF a b c] a b c show ?thesis by simp
qed

text \<open>
  C4 (as amended). The check of lines 65-66 comes before the dispatch and tests only that the
  next event's time equals the quake's, so on a tie between a device and the quake it is
  still made and can end the trial. When it does not, the tie goes to the device: device 1
  if its time is the minimum, else device 2, and the earthquake branch is not run.
\<close>

theorem tie_goes_to_device_after_check:
  "(next_event s = next_maintenance (device1 s) \<longrightarrow>
      simulate_loop w current_time s =
        (if stops current_time s then Some (current_time, s)
         else simulate_loop w (next_event s) (maintain1 w (next_event s) s))) \<and>
   (next_event s \<noteq> next_maintenance (device1 s) \<and>
    next_event s = next_maintenance (device2 s) \<longrightarrow>
      simulate_loop w current_time s =
        (if stops current_time s then Some (current_time, s)
         else simulate_loop w (next_event s) (maintain2 w (next_event s) s)))"
  by (subst simulate_loop.simps, subst (2) simulate_loop.simps)
     (simp add: handle_event_def)

theorem tie_goes_to_device_after_check_witness:
  "next_event (initial_simulator tie_draws) =
     next_maintenance (device1 (initial_simulator tie_draws)) \<and>
   next_event (initial_simulator tie_draws) = quake (initial_simulator tie_draws) \<and>
   next_event (initial_simulator tie_draws) = 30 \<and>
   simulate tie_draws (initial_simulator tie_draws) =
     simulate_loop tie_draws 30 (maintain1 tie_draws 30 (initial_simulator tie_draws)) \<and>
   end_maintenance (device1 (maintain1 tie_draws 30 (initial_simulator tie_draws))) = 60 \<and>
   quake (maintain1 tie_draws 30 (initial_simulator tie_draws)) = 30"
proof -
  let ?s = "initial_simulator tie_draws"
  have h: "next_event ?s = next_maintenance (device1 ?s)"
    and q: "next_event ?s = quake ?s"
    and e: "next_event ?s = 30"
    and n: "\<not> stops 0 ?s"
    by (simp_all add: next_event_def stops_def initial_simulator_def tie_draws_def
        q_slope_def q_scale_def)
  from tie_goes_to_device_after_check [of ?s tie_draws 0, THEN conjunct1, THEN mp, OF h]
  have l: "simulate tie_draws ?s = simulate_loop tie_draws 30 (maintain1 tie_draws 30 ?s)"
    using n e by (simp add: simulate_def)
  have m: "end_maintenance (device1 (maintain1 tie_draws 30 ?s)) = 60"
    "quake (maintain1 tie_draws 30 ?s) = 30"
    by (simp_all add: maintain1_def Let_def initial_simulator_def tie_draws_def
        q_slope_def q_scale_def)
  from h q e l m show ?thesis by blast
qed

text \<open>
  The claim as first stated, that the termination check does not take effect on a tie,
  fails: in \<open>tie_state\<close> device 1 and the quake are both due at 35, and the trial of this
  simulator stops at once, at time 0, without handling the maintenance of device 1.
\<close>

theorem tie_check_counterexample:
  "next_event tie_state = next_maintenance (device1 tie_state) \<and>
   next_event tie_state = quake tie_state \<and>
   simulate unit_draws tie_state = Some (0, tie_state) \<and>
   maintain1 unit_draws (next_event tie_state) tie_state \<noteq> tie_state"
  unfolding simulate_def
  by (subst simulate_loop.simps)
     (simp add: stops_def next_event_def tie_state_def maintain1_def Let_def)

text \<open>
  C6. When the earthquake is the event handled at time \<open>t\<close> (neither device is due at \<open>t\<close>):
  a device with \<open>end_maintenance \<le> t\<close> becomes failed with \<open>next_maintenance\<close> equal to
  \<open>t + maintenance_duration\<close>, a device with \<open>end_maintenance > t\<close> is unchanged, and the next
  quake is at \<open>t\<close> plus one hundred times a fresh draw of shape 3: the draw at the current
  position of the random stream, which then moves on by one, so that no later call sees
  this draw again.
\<close>

theorem earthquake_marks_failures:
  assumes "t \<noteq> next_maintenance (device1 s)" and "t \<noteq> next_maintenance (device2 s)"
  shows "device1 (handle_event w t s) =
           (if end_maintenance (device1 s) \<le> t
            then (device1 s)\<lparr>failed := True, next_maintenance := t + maintenance_duration s\<rparr>
            else device1 s) \<and>
         device2 (handle_event w t s) =
           (if end_maintenance (device2 s) \<le> t
            then (device2 s)\<lparr>failed := True, next_maintenance := t + maintenance_duration s\<rparr>
            else device2 s) \<and>
         quake (handle_event w t s) = t + w (draws s) 3 * 100 \<and>
         draws (handle_event w t s) = draws s + 1 \<and>
         maintenance_duration (handle_event w t s) = maintenance_duration s"
  using assms by (simp add: handle_event_def earthquake_def Let_def)

theorem earthquake_marks_failures_witness:
  "next_event before_first_quake \<noteq> next_maintenance (device1 before_first_quake) \<and>
   next_event before_first_quake \<noteq> next_maintenance (device2 before_first_quake) \<and>
   next_event before_first_quake = quake before_first_quake \<and>
   next_event before_first_quake = 200 \<and>
   device1 (handle_event indexed_draws (next_event before_first_quake) before_first_quake) =
     \<lparr>name = ''Device 1'', shape = 2, scale = 200, next_maintenance = 230,
      end_maintenance = 60, failed = True\<rparr> \<and>
   device2 (handle_event indexed_draws (next_event before_first_quake) before_first_quake) =
     device2 before_first_quake \<and>
   quake (handle_event indexed_draws (next_event before_first_quake) before_first_quake) =
     3500 \<and>
   draws (handle_event indexed_draws (next_event before_first_quake) before_first_quake) = 4"
proof -
  let ?s = "before_first_quake"
  have a: "next_event ?s \<noteq> next_maintenance (device1 ?s)"
    and b: "next_event ?s \<noteq> next_maintenance (device2 ?s)"
    and q: "next_event ?s = quake ?s"
    and e: "next_event ?s = 200"
    by (simp_all add: next_event_def before_first_quake_def)
  note m = earthquake_marks_failures [OF a b, of indexed_draws]
  from m e have d1: "device1 (handle_event indexed_draws (next_event ?s) ?s) =
     \<lparr>name = ''Device 1'', shape = 2, scale = 200, next_maintenance = 230,
      end_maintenance = 60, failed = True\<rparr>"
    by (simp add: before_first_quake_def)
  from m e have d2: "device2 (handle_event indexed_draws (next_event ?s) ?s) = device2 ?s"
    by (simp add: before_first_quake_def)
  from m e have qk: "quake (handle_event indexed_draws (next_event ?s) ?s) = 3500"
    by (simp add: before_first_quake_def indexed_draws_def)
  from m have dr: "draws (handle_event indexed_draws (next_event ?s) ?s) = 4"
    by (simp add: before_first_quake_def)
  from a b q e d1 d2 qk dr show ?thesis by blast
qed

subsection \<open>Reset\<close>

text \<open>
  C3 (as amended). After \<open>reset\<close> each device has \<open>failed\<close> false, \<open>end_maintenance\<close> zero and
  \<open>next_maintenance\<close> equal to its own \<open>scale\<close>; the devices after a reset depend only on
  their names, shapes and scales, not on the state or the random stream before it.
\<close>

theorem reset_devices:
  "device1 (reset w s) =
     (device1 s)\<lparr>next_maintenance := scale (device1 s), end_maintenance := 0, failed := False\<rparr> \<and>
   device2 (reset w s) =
     (device2 s)\<lparr>next_maintenance := scale (device2 s), end_maintenance := 0, failed := False\<rparr> \<and>
   (name (device1 s) = name (device1 s') \<and> shape (device1 s) = shape (device1 s') \<and>
    scale (device1 s) = scale (device1 s') \<longrightarrow> device1 (reset w s) = device1 (reset w' s')) \<and>
   (name (device2 s) = name (device2 s') \<and> shape (device2 s) = shape (device2 s') \<and>
    scale (device2 s) = scale (device2 s') \<longrightarrow> device2 (reset w s) = device2 (reset w' s'))"
  by (simp add: reset_def)

theorem reset_devices_witness:
  "name (device1 deferral_state) = name (device1 tie_state) \<and>
   shape (device1 deferral_state) = shape (device1 tie_state) \<and>
   scale (device1 deferral_state) = scale (device1 tie_state) \<and>
   device1 (reset unit_draws deferral_state) = device1 (reset trace_draws tie_state) \<and>
   next_maintenance (device1 (reset unit_draws deferral_state)) = 200"
proof -
  have h: "name (device1 deferral_state) = name (device1 tie_state) \<and>
      shape (device1 deferral_state) = shape (device1 tie_state) \<and>
      scale (device1 deferral_state) = scale (device1 tie_state)"
    by (simp add: deferral_state_def tie_state_def)
  note r = reset_devices [of unit_draws deferral_state tie_state trace_draws]
  from r h have e: "device1 (reset unit_draws deferral_state) = device1 (reset trace_draws tie_state)"
    by blast
  from r have "device1 (reset unit_draws deferral_state) =
      (device1 deferral_state)\<lparr>next_maintenance := scale (device1 deferral_state),
         end_maintenance := 0, failed := False\<rparr>"
    by blast
  then have "next_maintenance (device1 (reset unit_draws deferral_state)) = 200"
    by (simp add: deferral_state_def)
  with h e show ?thesis by blast
qed

text \<open>
  The claim as first stated, that \<open>next_maintenance\<close> returns to the configured initial value,
  fails: the devices are constructed with 30 and 180, and reset gives 200 and 100.
\<close>

theorem reset_initial_value_counterexample:
  "next_maintenance (device1 (initial_simulator unit_draws)) = 30 \<and>
   next_maintenance (device1 (reset unit_draws (initial_simulator unit_draws))) = 200 \<and>
   next_maintenance (device2 (initial_simulator unit_draws)) = 180 \<and>
   next_maintenance (device2 (reset unit_draws (initial_simulator unit_draws))) = 100"
  by (simp add: reset_def initial_simulator_def)

subsection \<open>A whole trial\<close>

text \<open>
  C7. In a trial that starts from a valid configuration, with no negative draw, every state
  the loop reaches has a current time that is not negative and not after the time of the
  next event, which is the current time of the next state; and if the trial returns, the
  time it returns is not before the current time of any state reached, nor negative.
\<close>

theorem current_time_monotone:
  assumes "valid_start s0" and "nonneg_draws w" and "trial_reaches w s0 current_time s"
  shows "0 \<le> current_time \<and> current_time \<le> next_event s \<and>
         (\<forall>t s'. simulate w s0 = Some (t, s') \<longrightarrow> current_time \<le> t \<and> 0 \<le> t)"
proof -
  have o: "on_time current_time s"
    using trial_reaches_on_time [OF assms(2) assms(1) assms(3)] .
  have z: "on_time 0 s0"
    using assms(1) by (simp add: valid_start_def on_time_def)
  have l: "simulate_loop w current_time s = simulate w s0"
    using trial_reaches_loop [OF assms(3)] .
  have p: "0 \<le> current_time"
    using assms(3)
  proof (induction rule: trial_reaches.induct)
    case start
    show ?case by simp
  next
    case (event ct s)
    from on_time_next_event [OF trial_reaches_on_time [OF assms(2) assms(1) event(1)]] event(3)
    show ?case by simp
  qed
  have "current_time \<le> t \<and> 0 \<le> t" if "simulate w s0 = Some (t, s')" for t s'
    using simulate_loop_result_ge [OF assms(2) o, of t s'] l that p by simp
  with p on_time_next_event [OF o] show ?thesis by blast
qed

theorem current_time_monotone_witness:
  "valid_start (initial_simulator trace_draws) \<and> nonneg_draws trace_draws \<and>
   trial_reaches trace_draws (initial_simulator trace_draws) 30
     (handle_event trace_draws 30 (initial_simulator trace_draws)) \<and>
   30 \<le> next_event (handle_event trace_draws 30 (initial_simulator trace_draws)) \<and>
   simulate trace_draws (initial_simulator trace_draws) = Some (180, first_trial_end) \<and>
   (30::real) \<le> 180"
proof -
  have v: "valid_start (initial_simulator trace_draws)"
    by (simp add: valid_start_def initial_simulator_def trace_draws_def q_slope_def q_scale_def)
  have n: "nonneg_draws trace_draws"
    by (simp add: nonneg_draws_def trace_draws_def)
  have e: "next_event (initial_simulator trace_draws) = 30"
    and g: "\<not> stops 0 (initial_simulator trace_draws)"
    by (simp_all add: next_event_def stops_def initial_simulator_def trace_draws_def
        q_slope_def q_scale_def)
  from trial_reaches.event [OF trial_reaches.start g, of trace_draws] e
  have r: "trial_reaches trace_draws (initial_simulator trace_draws) 30
      (handle_event trace_draws 30 (initial_simulator trace_draws))"
    by simp
  note m = current_time_monotone [OF v n r]
  from m have a: "30 \<le> next_event (handle_event trace_draws 30 (initial_simulator trace_draws))"
    by blast
  from m first_trial have b: "(30::real) \<le> 180"
    by blast
  from v n r a b first_trial show ?thesis by blast
qed

text \<open>
  C5 (as amended). For a valid configuration and a source of non-negative draws, a trial
  that returns, returns a time that is not negative. The loop is \<open>while True\<close> with no cap
  on its iterations and no sentinel: a trial need not return.
\<close>

theorem trial_result_nonneg:
  assumes "valid_start s" and "nonneg_draws w" and "simulate w s = Some (t, s')"
  shows "0 \<le> t"
proof -
  have "on_time 0 s"
    using assms(1) by (simp add: valid_start_def on_time_def)
  from simulate_loop_result_ge [OF assms(2) this] assms(3) show ?thesis
    by (simp add: simulate_def)
qed

theorem trial_result_nonneg_witness:
  "valid_start (initial_simulator trace_draws) \<and> nonneg_draws trace_draws \<and>
   simulate trace_draws (initial_simulator trace_draws) = Some (180, first_trial_end) \<and>
   (0::real) \<le> 180"
proof -
  have v: "valid_start (initial_simulator trace_draws)"
    by (simp add: valid_start_def initial_simulator_def trace_draws_def q_slope_def q_scale_def)
  have n: "nonneg_draws trace_draws"
    by (simp add: nonneg_draws_def trace_draws_def)
  from trial_result_nonneg [OF v n first_trial] v n first_trial show ?thesis by blast
qed

text \<open>
  The claim as first stated, that a trial returns a time or a sentinel once a cap is
  exceeded, fails: on the program's own configuration, with every draw equal to one, the
  events repeat with period 100 from time 200 on, and the loop never stops.
\<close>

theorem trial_never_returns_counterexample:
  "simulate unit_draws (initial_simulator unit_draws) = None"
proof (cases "simulate unit_draws (initial_simulator unit_draws)")
  case None
  then show ?thesis .
next
  case (Some r)
  then have "simulate_loop unit_draws 200 after_first_quake = Some r"
    by (simp add: unit_trial_prefix)
  from cycling_never_returns [OF this]
  have "\<not> cycling 200 after_first_quake" by simp
  then show ?thesis by (simp add: cycling_def after_first_quake_def)
qed

text \<open>
  C9. The \<open>failed\<close> flags are never read. Two simulators that differ only in these flags
  have the same next event and the same outcome of the termination check, every event
  handler makes the same updates to them (they still differ only in the flags), and with
  the same draws their trials either both never return or both return the same time, with
  simulators that differ only in the flags.
\<close>

theorem failed_is_write_only:
  assumes "forget_failed s = forget_failed s'"
  shows "next_event s = next_event s' \<and>
         stops current_time s = stops current_time s' \<and>
         forget_failed (handle_event w t s) = forget_failed (handle_event w t s') \<and>
         map_option fst (simulate w s) = map_option fst (simulate w s') \<and>
         map_option (forget_failed \<circ> snd) (simulate w s) =
           map_option (forget_failed \<circ> snd) (simulate w s')"
proof -
  have "map_option fst (map_option (\<lambda>r. (fst r, forget_failed (snd r))) (simulate w s)) =
        map_option fst (map_option (\<lambda>r. (fst r, forget_failed (snd r))) (simulate w s'))"
    "map_option snd (map_option (\<lambda>r. (fst r, forget_failed (snd r))) (simulate w s)) =
     map_option snd (map_option (\<lambda>r. (fst r, forget_failed (snd r))) (simulate w s'))"
    using forget_failed_simulate [OF assms, of w] by simp_all
  then have "map_option fst (simulate w s) = map_option fst (simulate w s')"
    "map_option (forget_failed \<circ> snd) (simulate w s) =
       map_option (forget_failed \<circ> snd) (simulate w s')"
    by (simp_all add: option.map_comp comp_def)
  with forget_failed_step [OF assms] show ?thesis by blast
qed

theorem failed_is_write_only_witness:
  "forget_failed (flagged_simulator trace_draws) = forget_failed (initial_simulator trace_draws) \<and>
   failed (device1 (flagged_simulator trace_draws)) \<noteq>
     failed (device1 (initial_simulator trace_draws)) \<and>
   map_option fst (simulate trace_draws (flagged_simulator trace_draws)) = Some 180"
proof -
  have e: "forget_failed (flagged_simulator trace_draws) =
      forget_failed (initial_simulator trace_draws)"
    by (simp add: forget_failed_def flagged_simulator_def)
  have d: "failed (device1 (flagged_simulator trace_draws)) \<noteq>
     failed (device1 (initial_simulator trace_draws))"
    by (simp add: flagged_simulator_def initial_simulator_def)
  from failed_is_write_only [OF e, of 0 trace_draws 0]
  have "map_option fst (simulate trace_draws (flagged_simulator trace_draws)) =
      map_option fst (simulate trace_draws (initial_simulator trace_draws))"
    by blast
  then have "map_option fst (simulate trace_draws (flagged_simulator trace_draws)) = Some 180"
    by (simp add: first_trial)
  with e d show ?thesis by blast
qed

subsection \<open>The Monte Carlo driver\<close>






end
